theory Spec2Isabelle
  imports Main "HOL-Library.Sublist"
begin

section \<open>Python strings\<close>

text \<open>
  A Python \<^verbatim>\<open>str\<close> is a sequence of Unicode code points, and \<^verbatim>\<open>len\<close>, slicing and
  \<^verbatim>\<open>endswith\<close> count code points. A code point is a natural number here; the string
  literals of the notebook are ASCII and are written \<open>lit ''ing''\<close>.
\<close>

type_synonym codepoint = nat
type_synonym pystr = "codepoint list"

definition lit :: "string \<Rightarrow> pystr" where
  "lit s = map of_char s"

subsection \<open>Case mapping tables\<close>

text \<open>
  \<^verbatim>\<open>str.lower\<close> and \<^verbatim>\<open>str.upper\<close> are builtins that apply the full case mappings of the
  Unicode Character Database. The notebook records Python 3.11.5, whose database is
  Unicode 14.0.0; the tables below are that database's mappings: for every code point
  \<open>c\<close>, \<open>lower_cp c\<close> and \<open>upper_cp c\<close> are the code points of \<^verbatim>\<open>chr(c).lower()\<close> and
  \<^verbatim>\<open>chr(c).upper()\<close>. Every table is sorted by code point, so a lookup stops at the first
  entry that starts beyond the code point. A natural number above U+10FFFF is no code
  point of a Python string; the tables leave it alone.

  A range entry \<open>(lo, hi, step, tlo)\<close> maps the code points \<open>lo, lo + step, ...\<close> up to
  \<open>hi\<close> to \<open>tlo, tlo + step, ...\<close>.
\<close>

fun range_lookup :: "(nat \<times> nat \<times> nat \<times> nat) list \<Rightarrow> codepoint \<Rightarrow> codepoint option" where
  "range_lookup [] c = None"
| "range_lookup ((lo, hi, step, tlo) # es) c =
     (if c < lo then None
      else if c \<le> hi \<and> (c - lo) mod step = 0 then Some (tlo + (c - lo))
      else range_lookup es c)"

fun special_lookup :: "(codepoint \<times> pystr) list \<Rightarrow> codepoint \<Rightarrow> pystr option" where
  "special_lookup [] c = None"
| "special_lookup ((k, v) # es) c =
     (if c < k then None else if c = k then Some v else special_lookup es c)"

fun in_ranges :: "(nat \<times> nat) list \<Rightarrow> codepoint \<Rightarrow> bool" where
  "in_ranges [] c = False"
| "in_ranges ((lo, hi) # es) c = (if c < lo then False else if c \<le> hi then True else in_ranges es c)"

text \<open>
  The simple lowercase mappings (one code point to one code point). The table is kept
  in blocks of consecutive entries; \<open>lower_simple\<close> picks the block by the code point
  and reads that block only.
\<close>

definition lower_tab_0 :: "(nat \<times> nat \<times> nat \<times> nat) list" where
  "lower_tab_0 =
    [(65, 90, 1, 97)]"

definition lower_tab_1 :: "(nat \<times> nat \<times> nat \<times> nat) list" where
  "lower_tab_1 =
    [(192, 214, 1, 224), (216, 222, 1, 248)]"

definition lower_tab_2 :: "(nat \<times> nat \<times> nat \<times> nat) list" where
  "lower_tab_2 =
    [(256, 302, 2, 257), (306, 310, 2, 307), (313, 327, 2, 314)]"

definition lower_tab_3 :: "(nat \<times> nat \<times> nat \<times> nat) list" where
  "lower_tab_3 =
    [(330, 374, 2, 331), (376, 376, 1, 255), (377, 381, 2, 378), (385, 385, 1, 595),
     (386, 388, 2, 387), (390, 390, 1, 596), (391, 391, 1, 392), (393, 394, 1, 598)]"

definition lower_tab_4 :: "(nat \<times> nat \<times> nat \<times> nat) list" where
  "lower_tab_4 =
    [(395, 395, 1, 396), (398, 398, 1, 477), (399, 399, 1, 601), (400, 400, 1, 603),
     (401, 401, 1, 402), (403, 403, 1, 608), (404, 404, 1, 611), (406, 406, 1, 617)]"

definition lower_tab_5 :: "(nat \<times> nat \<times> nat \<times> nat) list" where
  "lower_tab_5 =
    [(407, 407, 1, 616), (408, 408, 1, 409), (412, 412, 1, 623), (413, 413, 1, 626),
     (415, 415, 1, 629), (416, 420, 2, 417), (422, 422, 1, 640), (423, 423, 1, 424)]"

definition lower_tab_6 :: "(nat \<times> nat \<times> nat \<times> nat) list" where
  "lower_tab_6 =
    [(425, 425, 1, 643), (428, 428, 1, 429), (430, 430, 1, 648), (431, 431, 1, 432),
     (433, 434, 1, 650), (435, 437, 2, 436), (439, 439, 1, 658), (440, 440, 1, 441)]"

definition lower_tab_7 :: "(nat \<times> nat \<times> nat \<times> nat) list" where
  "lower_tab_7 =
    [(444, 444, 1, 445), (452, 452, 1, 454), (453, 453, 1, 454), (455, 455, 1, 457),
     (456, 456, 1, 457), (458, 458, 1, 460), (459, 475, 2, 460), (478, 494, 2, 479)]"

definition lower_tab_8 :: "(nat \<times> nat \<times> nat \<times> nat) list" where
  "lower_tab_8 =
    [(497, 497, 1, 499), (498, 500, 2, 499), (502, 502, 1, 405), (503, 503, 1, 447),
     (504, 542, 2, 505), (544, 544, 1, 414), (546, 562, 2, 547), (570, 570, 1, 11365)]"

definition lower_tab_9 :: "(nat \<times> nat \<times> nat \<times> nat) list" where
  "lower_tab_9 =
    [(571, 571, 1, 572), (573, 573, 1, 410), (574, 574, 1, 11366), (577, 577, 1, 578),
     (579, 579, 1, 384), (580, 580, 1, 649), (581, 581, 1, 652), (582, 590, 2, 583)]"

definition lower_tab_10 :: "(nat \<times> nat \<times> nat \<times> nat) list" where
  "lower_tab_10 =
    [(880, 882, 2, 881), (886, 886, 1, 887), (895, 895, 1, 1011), (902, 902, 1, 940),
     (904, 906, 1, 941), (908, 908, 1, 972), (910, 911, 1, 973), (913, 929, 1, 945)]"

definition lower_tab_11 :: "(nat \<times> nat \<times> nat \<times> nat) list" where
  "lower_tab_11 =
    [(931, 939, 1, 963), (975, 975, 1, 983), (984, 1006, 2, 985), (1012, 1012, 1, 952),
     (1015, 1015, 1, 1016), (1017, 1017, 1, 1010), (1018, 1018, 1, 1019), (1021, 1023, 1, 891)]"

definition lower_tab_12 :: "(nat \<times> nat \<times> nat \<times> nat) list" where
  "lower_tab_12 =
    [(1024, 1039, 1, 1104), (1040, 1071, 1, 1072)]"

definition lower_tab_13 :: "(nat \<times> nat \<times> nat \<times> nat) list" where
  "lower_tab_13 =
    [(1120, 1152, 2, 1121), (1162, 1214, 2, 1163), (1216, 1216, 1, 1231)]"

definition lower_tab_14 :: "(nat \<times> nat \<times> nat \<times> nat) list" where
  "lower_tab_14 =
    [(1217, 1229, 2, 1218)]"

definition lower_tab_15 :: "(nat \<times> nat \<times> nat \<times> nat) list" where
  "lower_tab_15 =
    [(1232, 1326, 2, 1233)]"

definition lower_tab_16 :: "(nat \<times> nat \<times> nat \<times> nat) list" where
  "lower_tab_16 =
    [(1329, 1366, 1, 1377)]"

definition lower_tab_17 :: "(nat \<times> nat \<times> nat \<times> nat) list" where
  "lower_tab_17 =
    [(4256, 4293, 1, 11520), (4295, 4295, 1, 11559), (4301, 4301, 1, 11565)]"

definition lower_tab_18 :: "(nat \<times> nat \<times> nat \<times> nat) list" where
  "lower_tab_18 =
    [(5024, 5103, 1, 43888)]"

definition lower_tab_19 :: "(nat \<times> nat \<times> nat \<times> nat) list" where
  "lower_tab_19 =
    [(5104, 5109, 1, 5112)]"

definition lower_tab_20 :: "(nat \<times> nat \<times> nat \<times> nat) list" where
  "lower_tab_20 =
    [(7312, 7354, 1, 4304), (7357, 7359, 1, 4349)]"

definition lower_tab_21 :: "(nat \<times> nat \<times> nat \<times> nat) list" where
  "lower_tab_21 =
    [(7680, 7828, 2, 7681)]"

definition lower_tab_22 :: "(nat \<times> nat \<times> nat \<times> nat) list" where
  "lower_tab_22 =
    [(7838, 7838, 1, 223)]"

definition lower_tab_23 :: "(nat \<times> nat \<times> nat \<times> nat) list" where
  "lower_tab_23 =
    [(7840, 7934, 2, 7841)]"

definition lower_tab_24 :: "(nat \<times> nat \<times> nat \<times> nat) list" where
  "lower_tab_24 =
    [(7944, 7951, 1, 7936), (7960, 7965, 1, 7952), (7976, 7983, 1, 7968),
     (7992, 7999, 1, 7984), (8008, 8013, 1, 8000), (8025, 8031, 2, 8017), (8040, 8047, 1, 8032)]"

definition lower_tab_25 :: "(nat \<times> nat \<times> nat \<times> nat) list" where
  "lower_tab_25 =
    [(8072, 8079, 1, 8064), (8088, 8095, 1, 8080), (8104, 8111, 1, 8096),
     (8120, 8121, 1, 8112), (8122, 8123, 1, 8048), (8124, 8124, 1, 8115),
     (8136, 8139, 1, 8050), (8140, 8140, 1, 8131)]"

definition lower_tab_26 :: "(nat \<times> nat \<times> nat \<times> nat) list" where
  "lower_tab_26 =
    [(8152, 8153, 1, 8144), (8154, 8155, 1, 8054), (8168, 8169, 1, 8160),
     (8170, 8171, 1, 8058), (8172, 8172, 1, 8165), (8184, 8185, 1, 8056),
     (8186, 8187, 1, 8060), (8188, 8188, 1, 8179)]"

definition lower_tab_27 :: "(nat \<times> nat \<times> nat \<times> nat) list" where
  "lower_tab_27 =
    [(8486, 8486, 1, 969), (8490, 8490, 1, 107), (8491, 8491, 1, 229), (8498, 8498, 1, 8526),
     (8544, 8559, 1, 8560), (8579, 8579, 1, 8580), (9398, 9423, 1, 9424)]"

definition lower_tab_28 :: "(nat \<times> nat \<times> nat \<times> nat) list" where
  "lower_tab_28 =
    [(11264, 11311, 1, 11312)]"

definition lower_tab_29 :: "(nat \<times> nat \<times> nat \<times> nat) list" where
  "lower_tab_29 =
    [(11360, 11360, 1, 11361), (11362, 11362, 1, 619), (11363, 11363, 1, 7549),
     (11364, 11364, 1, 637), (11367, 11371, 2, 11368), (11373, 11373, 1, 593),
     (11374, 11374, 1, 625), (11375, 11375, 1, 592)]"

definition lower_tab_30 :: "(nat \<times> nat \<times> nat \<times> nat) list" where
  "lower_tab_30 =
    [(11376, 11376, 1, 594), (11378, 11378, 1, 11379), (11381, 11381, 1, 11382),
     (11390, 11391, 1, 575)]"

definition lower_tab_31 :: "(nat \<times> nat \<times> nat \<times> nat) list" where
  "lower_tab_31 =
    [(11392, 11490, 2, 11393)]"

definition lower_tab_32 :: "(nat \<times> nat \<times> nat \<times> nat) list" where
  "lower_tab_32 =
    [(11499, 11501, 2, 11500), (11506, 11506, 1, 11507), (42560, 42604, 2, 42561),
     (42624, 42650, 2, 42625), (42786, 42798, 2, 42787)]"

definition lower_tab_33 :: "(nat \<times> nat \<times> nat \<times> nat) list" where
  "lower_tab_33 =
    [(42802, 42862, 2, 42803), (42873, 42875, 2, 42874), (42877, 42877, 1, 7545),
     (42878, 42886, 2, 42879), (42891, 42891, 1, 42892), (42893, 42893, 1, 613),
     (42896, 42898, 2, 42897)]"

definition lower_tab_34 :: "(nat \<times> nat \<times> nat \<times> nat) list" where
  "lower_tab_34 =
    [(42902, 42920, 2, 42903), (42922, 42922, 1, 614), (42923, 42923, 1, 604),
     (42924, 42924, 1, 609), (42925, 42925, 1, 620), (42926, 42926, 1, 618),
     (42928, 42928, 1, 670), (42929, 42929, 1, 647)]"

definition lower_tab_35 :: "(nat \<times> nat \<times> nat \<times> nat) list" where
  "lower_tab_35 =
    [(42930, 42930, 1, 669), (42931, 42931, 1, 43859), (42932, 42946, 2, 42933),
     (42948, 42948, 1, 42900), (42949, 42949, 1, 642), (42950, 42950, 1, 7566),
     (42951, 42953, 2, 42952), (42960, 42960, 1, 42961)]"

definition lower_tab_36 :: "(nat \<times> nat \<times> nat \<times> nat) list" where
  "lower_tab_36 =
    [(42966, 42968, 2, 42967), (42997, 42997, 1, 42998), (65313, 65338, 1, 65345)]"

definition lower_tab_37 :: "(nat \<times> nat \<times> nat \<times> nat) list" where
  "lower_tab_37 =
    [(66560, 66599, 1, 66600)]"

definition lower_tab_38 :: "(nat \<times> nat \<times> nat \<times> nat) list" where
  "lower_tab_38 =
    [(66736, 66771, 1, 66776), (66928, 66938, 1, 66967)]"

definition lower_tab_39 :: "(nat \<times> nat \<times> nat \<times> nat) list" where
  "lower_tab_39 =
    [(66940, 66954, 1, 66979), (66956, 66962, 1, 66995), (66964, 66965, 1, 67003)]"

definition lower_tab_40 :: "(nat \<times> nat \<times> nat \<times> nat) list" where
  "lower_tab_40 =
    [(68736, 68786, 1, 68800)]"

definition lower_tab_41 :: "(nat \<times> nat \<times> nat \<times> nat) list" where
  "lower_tab_41 =
    [(71840, 71871, 1, 71872)]"

definition lower_tab_42 :: "(nat \<times> nat \<times> nat \<times> nat) list" where
  "lower_tab_42 =
    [(93760, 93791, 1, 93792)]"

definition lower_tab_43 :: "(nat \<times> nat \<times> nat \<times> nat) list" where
  "lower_tab_43 =
    [(125184, 125217, 1, 125218)]"

definition lower_simple :: "codepoint \<Rightarrow> codepoint option" where
  "lower_simple c =
    (if c \<le> 90 then range_lookup lower_tab_0 c
     else if c \<le> 222 then range_lookup lower_tab_1 c
     else if c \<le> 327 then range_lookup lower_tab_2 c
     else if c \<le> 394 then range_lookup lower_tab_3 c
     else if c \<le> 406 then range_lookup lower_tab_4 c
     else if c \<le> 423 then range_lookup lower_tab_5 c
     else if c \<le> 440 then range_lookup lower_tab_6 c
     else if c \<le> 494 then range_lookup lower_tab_7 c
     else if c \<le> 570 then range_lookup lower_tab_8 c
     else if c \<le> 590 then range_lookup lower_tab_9 c
     else if c \<le> 929 then range_lookup lower_tab_10 c
     else if c \<le> 1023 then range_lookup lower_tab_11 c
     else if c \<le> 1071 then range_lookup lower_tab_12 c
     else if c \<le> 1216 then range_lookup lower_tab_13 c
     else if c \<le> 1229 then range_lookup lower_tab_14 c
     else if c \<le> 1326 then range_lookup lower_tab_15 c
     else if c \<le> 1366 then range_lookup lower_tab_16 c
     else if c \<le> 4301 then range_lookup lower_tab_17 c
     else if c \<le> 5103 then range_lookup lower_tab_18 c
     else if c \<le> 5109 then range_lookup lower_tab_19 c
     else if c \<le> 7359 then range_lookup lower_tab_20 c
     else if c \<le> 7828 then range_lookup lower_tab_21 c
     else if c \<le> 7838 then range_lookup lower_tab_22 c
     else if c \<le> 7934 then range_lookup lower_tab_23 c
     else if c \<le> 8047 then range_lookup lower_tab_24 c
     else if c \<le> 8140 then range_lookup lower_tab_25 c
     else if c \<le> 8188 then range_lookup lower_tab_26 c
     else if c \<le> 9423 then range_lookup lower_tab_27 c
     else if c \<le> 11311 then range_lookup lower_tab_28 c
     else if c \<le> 11375 then range_lookup lower_tab_29 c
     else if c \<le> 11391 then range_lookup lower_tab_30 c
     else if c \<le> 11490 then range_lookup lower_tab_31 c
     else if c \<le> 42798 then range_lookup lower_tab_32 c
     else if c \<le> 42898 then range_lookup lower_tab_33 c
     else if c \<le> 42929 then range_lookup lower_tab_34 c
     else if c \<le> 42960 then range_lookup lower_tab_35 c
     else if c \<le> 65338 then range_lookup lower_tab_36 c
     else if c \<le> 66599 then range_lookup lower_tab_37 c
     else if c \<le> 66938 then range_lookup lower_tab_38 c
     else if c \<le> 66965 then range_lookup lower_tab_39 c
     else if c \<le> 68786 then range_lookup lower_tab_40 c
     else if c \<le> 71871 then range_lookup lower_tab_41 c
     else if c \<le> 93791 then range_lookup lower_tab_42 c
     else range_lookup lower_tab_43 c)"

text \<open>
  The only code point whose lowercase form is longer than one code point: U+0130, capital
  I with dot above, becomes \<open>i\<close> followed by the combining dot U+0307.
\<close>

definition lower_special :: "(codepoint \<times> pystr) list" where
  "lower_special =
    [(304, [105, 775])]"

text \<open>The simple uppercase mappings, in blocks as well.\<close>

definition upper_tab_0 :: "(nat \<times> nat \<times> nat \<times> nat) list" where
  "upper_tab_0 =
    [(97, 122, 1, 65), (181, 181, 1, 924), (224, 246, 1, 192), (248, 254, 1, 216),
     (255, 255, 1, 376), (257, 303, 2, 256), (305, 305, 1, 73), (307, 311, 2, 306),
     (314, 328, 2, 313), (331, 375, 2, 330), (378, 382, 2, 377), (383, 383, 1, 83)]"

definition upper_tab_1 :: "(nat \<times> nat \<times> nat \<times> nat) list" where
  "upper_tab_1 =
    [(384, 384, 1, 579), (387, 389, 2, 386), (392, 392, 1, 391), (396, 396, 1, 395),
     (402, 402, 1, 401), (405, 405, 1, 502), (409, 409, 1, 408), (410, 410, 1, 573),
     (414, 414, 1, 544), (417, 421, 2, 416), (424, 424, 1, 423), (429, 429, 1, 428)]"

definition upper_tab_2 :: "(nat \<times> nat \<times> nat \<times> nat) list" where
  "upper_tab_2 =
    [(432, 432, 1, 431), (436, 438, 2, 435), (441, 441, 1, 440), (445, 445, 1, 444),
     (447, 447, 1, 503), (453, 453, 1, 452), (454, 454, 1, 452), (456, 456, 1, 455),
     (457, 457, 1, 455), (459, 459, 1, 458), (460, 460, 1, 458), (462, 476, 2, 461)]"

definition upper_tab_3 :: "(nat \<times> nat \<times> nat \<times> nat) list" where
  "upper_tab_3 =
    [(477, 477, 1, 398), (479, 495, 2, 478), (498, 498, 1, 497), (499, 499, 1, 497),
     (501, 501, 1, 500), (505, 543, 2, 504), (547, 563, 2, 546), (572, 572, 1, 571),
     (575, 576, 1, 11390), (578, 578, 1, 577), (583, 591, 2, 582), (592, 592, 1, 11375)]"

definition upper_tab_4 :: "(nat \<times> nat \<times> nat \<times> nat) list" where
  "upper_tab_4 =
    [(593, 593, 1, 11373), (594, 594, 1, 11376), (595, 595, 1, 385), (596, 596, 1, 390),
     (598, 599, 1, 393), (601, 601, 1, 399), (603, 603, 1, 400), (604, 604, 1, 42923),
     (608, 608, 1, 403), (609, 609, 1, 42924), (611, 611, 1, 404), (613, 613, 1, 42893)]"

definition upper_tab_5 :: "(nat \<times> nat \<times> nat \<times> nat) list" where
  "upper_tab_5 =
    [(614, 614, 1, 42922), (616, 616, 1, 407), (617, 617, 1, 406), (618, 618, 1, 42926),
     (619, 619, 1, 11362), (620, 620, 1, 42925), (623, 623, 1, 412), (625, 625, 1, 11374),
     (626, 626, 1, 413), (629, 629, 1, 415), (637, 637, 1, 11364), (640, 640, 1, 422)]"

definition upper_tab_6 :: "(nat \<times> nat \<times> nat \<times> nat) list" where
  "upper_tab_6 =
    [(642, 642, 1, 42949), (643, 643, 1, 425), (647, 647, 1, 42929), (648, 648, 1, 430),
     (649, 649, 1, 580), (650, 651, 1, 433), (652, 652, 1, 581), (658, 658, 1, 439),
     (669, 669, 1, 42930), (670, 670, 1, 42928), (837, 837, 1, 921), (881, 883, 2, 880)]"

definition upper_tab_7 :: "(nat \<times> nat \<times> nat \<times> nat) list" where
  "upper_tab_7 =
    [(887, 887, 1, 886), (891, 893, 1, 1021), (940, 940, 1, 902), (941, 943, 1, 904),
     (945, 961, 1, 913), (962, 962, 1, 931), (963, 971, 1, 931), (972, 972, 1, 908),
     (973, 974, 1, 910), (976, 976, 1, 914), (977, 977, 1, 920), (981, 981, 1, 934)]"

definition upper_tab_8 :: "(nat \<times> nat \<times> nat \<times> nat) list" where
  "upper_tab_8 =
    [(982, 982, 1, 928), (983, 983, 1, 975), (985, 1007, 2, 984), (1008, 1008, 1, 922),
     (1009, 1009, 1, 929), (1010, 1010, 1, 1017), (1011, 1011, 1, 895), (1013, 1013, 1, 917),
     (1016, 1016, 1, 1015), (1019, 1019, 1, 1018), (1072, 1103, 1, 1040), (1104, 1119, 1, 1024)]"

definition upper_tab_9 :: "(nat \<times> nat \<times> nat \<times> nat) list" where
  "upper_tab_9 =
    [(1121, 1153, 2, 1120), (1163, 1215, 2, 1162), (1218, 1230, 2, 1217),
     (1231, 1231, 1, 1216), (1233, 1327, 2, 1232), (1377, 1414, 1, 1329),
     (4304, 4346, 1, 7312), (4349, 4351, 1, 7357), (5112, 5117, 1, 5104),
     (7296, 7296, 1, 1042), (7297, 7297, 1, 1044), (7298, 7298, 1, 1054)]"

definition upper_tab_10 :: "(nat \<times> nat \<times> nat \<times> nat) list" where
  "upper_tab_10 =
    [(7299, 7300, 1, 1057), (7301, 7301, 1, 1058), (7302, 7302, 1, 1066),
     (7303, 7303, 1, 1122), (7304, 7304, 1, 42570), (7545, 7545, 1, 42877),
     (7549, 7549, 1, 11363), (7566, 7566, 1, 42950), (7681, 7829, 2, 7680),
     (7835, 7835, 1, 7776), (7841, 7935, 2, 7840), (7936, 7943, 1, 7944)]"

definition upper_tab_11 :: "(nat \<times> nat \<times> nat \<times> nat) list" where
  "upper_tab_11 =
    [(7952, 7957, 1, 7960), (7968, 7975, 1, 7976), (7984, 7991, 1, 7992),
     (8000, 8005, 1, 8008), (8017, 8023, 2, 8025), (8032, 8039, 1, 8040),
     (8048, 8049, 1, 8122), (8050, 8053, 1, 8136), (8054, 8055, 1, 8154),
     (8056, 8057, 1, 8184), (8058, 8059, 1, 8170), (8060, 8061, 1, 8186)]"

definition upper_tab_12 :: "(nat \<times> nat \<times> nat \<times> nat) list" where
  "upper_tab_12 =
    [(8112, 8113, 1, 8120), (8126, 8126, 1, 921), (8144, 8145, 1, 8152), (8160, 8161, 1, 8168),
     (8165, 8165, 1, 8172), (8526, 8526, 1, 8498), (8560, 8575, 1, 8544),
     (8580, 8580, 1, 8579), (9424, 9449, 1, 9398), (11312, 11359, 1, 11264),
     (11361, 11361, 1, 11360), (11365, 11365, 1, 570)]"

definition upper_tab_13 :: "(nat \<times> nat \<times> nat \<times> nat) list" where
  "upper_tab_13 =
    [(11366, 11366, 1, 574), (11368, 11372, 2, 11367), (11379, 11379, 1, 11378),
     (11382, 11382, 1, 11381), (11393, 11491, 2, 11392), (11500, 11502, 2, 11499),
     (11507, 11507, 1, 11506), (11520, 11557, 1, 4256), (11559, 11559, 1, 4295),
     (11565, 11565, 1, 4301), (42561, 42605, 2, 42560), (42625, 42651, 2, 42624)]"

definition upper_tab_14 :: "(nat \<times> nat \<times> nat \<times> nat) list" where
  "upper_tab_14 =
    [(42787, 42799, 2, 42786), (42803, 42863, 2, 42802), (42874, 42876, 2, 42873),
     (42879, 42887, 2, 42878), (42892, 42892, 1, 42891), (42897, 42899, 2, 42896),
     (42900, 42900, 1, 42948), (42903, 42921, 2, 42902), (42933, 42947, 2, 42932),
     (42952, 42954, 2, 42951), (42961, 42961, 1, 42960), (42967, 42969, 2, 42966)]"

definition upper_tab_15 :: "(nat \<times> nat \<times> nat \<times> nat) list" where
  "upper_tab_15 =
    [(42998, 42998, 1, 42997), (43859, 43859, 1, 42931), (43888, 43967, 1, 5024),
     (65345, 65370, 1, 65313), (66600, 66639, 1, 66560), (66776, 66811, 1, 66736),
     (66967, 66977, 1, 66928), (66979, 66993, 1, 66940), (66995, 67001, 1, 66956),
     (67003, 67004, 1, 66964), (68800, 68850, 1, 68736), (71872, 71903, 1, 71840)]"

definition upper_tab_16 :: "(nat \<times> nat \<times> nat \<times> nat) list" where
  "upper_tab_16 =
    [(93792, 93823, 1, 93760), (125218, 125251, 1, 125184)]"

definition upper_simple :: "codepoint \<Rightarrow> codepoint option" where
  "upper_simple c =
    (if c \<le> 383 then range_lookup upper_tab_0 c
     else if c \<le> 429 then range_lookup upper_tab_1 c
     else if c \<le> 476 then range_lookup upper_tab_2 c
     else if c \<le> 592 then range_lookup upper_tab_3 c
     else if c \<le> 613 then range_lookup upper_tab_4 c
     else if c \<le> 640 then range_lookup upper_tab_5 c
     else if c \<le> 883 then range_lookup upper_tab_6 c
     else if c \<le> 981 then range_lookup upper_tab_7 c
     else if c \<le> 1119 then range_lookup upper_tab_8 c
     else if c \<le> 7298 then range_lookup upper_tab_9 c
     else if c \<le> 7943 then range_lookup upper_tab_10 c
     else if c \<le> 8061 then range_lookup upper_tab_11 c
     else if c \<le> 11365 then range_lookup upper_tab_12 c
     else if c \<le> 42651 then range_lookup upper_tab_13 c
     else if c \<le> 42969 then range_lookup upper_tab_14 c
     else if c \<le> 71903 then range_lookup upper_tab_15 c
     else range_lookup upper_tab_16 c)"

text \<open>
  The code points whose uppercase form is longer than one code point: U+00DF, sharp s,
  becomes \<open>SS\<close>; then the ligatures, the Greek letters with iota subscript and others.
\<close>

definition upper_special :: "(codepoint \<times> pystr) list" where
  "upper_special =
    [(223, [83, 83]), (329, [700, 78]), (496, [74, 780]), (912, [921, 776, 769]),
     (944, [933, 776, 769]), (1415, [1333, 1362]), (7830, [72, 817]), (7831, [84, 776]),
     (7832, [87, 778]), (7833, [89, 778]), (7834, [65, 702]), (8016, [933, 787]),
     (8018, [933, 787, 768]), (8020, [933, 787, 769]), (8022, [933, 787, 834]),
     (8064, [7944, 921]), (8065, [7945, 921]), (8066, [7946, 921]), (8067, [7947, 921]),
     (8068, [7948, 921]), (8069, [7949, 921]), (8070, [7950, 921]), (8071, [7951, 921]),
     (8072, [7944, 921]), (8073, [7945, 921]), (8074, [7946, 921]), (8075, [7947, 921]),
     (8076, [7948, 921]), (8077, [7949, 921]), (8078, [7950, 921]), (8079, [7951, 921]),
     (8080, [7976, 921]), (8081, [7977, 921]), (8082, [7978, 921]), (8083, [7979, 921]),
     (8084, [7980, 921]), (8085, [7981, 921]), (8086, [7982, 921]), (8087, [7983, 921]),
     (8088, [7976, 921]), (8089, [7977, 921]), (8090, [7978, 921]), (8091, [7979, 921]),
     (8092, [7980, 921]), (8093, [7981, 921]), (8094, [7982, 921]), (8095, [7983, 921]),
     (8096, [8040, 921]), (8097, [8041, 921]), (8098, [8042, 921]), (8099, [8043, 921]),
     (8100, [8044, 921]), (8101, [8045, 921]), (8102, [8046, 921]), (8103, [8047, 921]),
     (8104, [8040, 921]), (8105, [8041, 921]), (8106, [8042, 921]), (8107, [8043, 921]),
     (8108, [8044, 921]), (8109, [8045, 921]), (8110, [8046, 921]), (8111, [8047, 921]),
     (8114, [8122, 921]), (8115, [913, 921]), (8116, [902, 921]), (8118, [913, 834]),
     (8119, [913, 834, 921]), (8124, [913, 921]), (8130, [8138, 921]), (8131, [919, 921]),
     (8132, [905, 921]), (8134, [919, 834]), (8135, [919, 834, 921]), (8140, [919, 921]),
     (8146, [921, 776, 768]), (8147, [921, 776, 769]), (8150, [921, 834]),
     (8151, [921, 776, 834]), (8162, [933, 776, 768]), (8163, [933, 776, 769]),
     (8164, [929, 787]), (8166, [933, 834]), (8167, [933, 776, 834]), (8178, [8186, 921]),
     (8179, [937, 921]), (8180, [911, 921]), (8182, [937, 834]), (8183, [937, 834, 921]),
     (8188, [937, 921]), (64256, [70, 70]), (64257, [70, 73]), (64258, [70, 76]),
     (64259, [70, 70, 73]), (64260, [70, 70, 76]), (64261, [83, 84]), (64262, [83, 84]),
     (64275, [1348, 1350]), (64276, [1348, 1333]), (64277, [1348, 1339]),
     (64278, [1358, 1350]), (64279, [1348, 1341])]"

text \<open>The case-ignorable code points, as ranges \<open>(lo, hi)\<close>.\<close>

definition case_ignorable_tab :: "(nat \<times> nat) list" where
  "case_ignorable_tab =
    [(39, 39), (46, 46), (58, 58), (94, 94), (96, 96), (168, 168), (173, 173), (175, 175),
     (180, 180), (183, 184), (688, 879), (884, 885), (890, 890), (900, 901), (903, 903),
     (1155, 1161), (1369, 1369), (1375, 1375), (1425, 1469), (1471, 1471), (1473, 1474),
     (1476, 1477), (1479, 1479), (1524, 1524), (1536, 1541), (1552, 1562), (1564, 1564),
     (1600, 1600), (1611, 1631), (1648, 1648), (1750, 1757), (1759, 1768), (1770, 1773),
     (1807, 1807), (1809, 1809), (1840, 1866), (1958, 1968), (2027, 2037), (2042, 2042),
     (2045, 2045), (2070, 2093), (2137, 2139), (2184, 2184), (2192, 2193), (2200, 2207),
     (2249, 2306), (2362, 2362), (2364, 2364), (2369, 2376), (2381, 2381), (2385, 2391),
     (2402, 2403), (2417, 2417), (2433, 2433), (2492, 2492), (2497, 2500), (2509, 2509),
     (2530, 2531), (2558, 2558), (2561, 2562), (2620, 2620), (2625, 2626), (2631, 2632),
     (2635, 2637), (2641, 2641), (2672, 2673), (2677, 2677), (2689, 2690), (2748, 2748),
     (2753, 2757), (2759, 2760), (2765, 2765), (2786, 2787), (2810, 2815), (2817, 2817),
     (2876, 2876), (2879, 2879), (2881, 2884), (2893, 2893), (2901, 2902), (2914, 2915),
     (2946, 2946), (3008, 3008), (3021, 3021), (3072, 3072), (3076, 3076), (3132, 3132),
     (3134, 3136), (3142, 3144), (3146, 3149), (3157, 3158), (3170, 3171), (3201, 3201),
     (3260, 3260), (3263, 3263), (3270, 3270), (3276, 3277), (3298, 3299), (3328, 3329),
     (3387, 3388), (3393, 3396), (3405, 3405), (3426, 3427), (3457, 3457), (3530, 3530),
     (3538, 3540), (3542, 3542), (3633, 3633), (3636, 3642), (3654, 3662), (3761, 3761),
     (3764, 3772), (3782, 3782), (3784, 3789), (3864, 3865), (3893, 3893), (3895, 3895),
     (3897, 3897), (3953, 3966), (3968, 3972), (3974, 3975), (3981, 3991), (3993, 4028),
     (4038, 4038), (4141, 4144), (4146, 4151), (4153, 4154), (4157, 4158), (4184, 4185),
     (4190, 4192), (4209, 4212), (4226, 4226), (4229, 4230), (4237, 4237), (4253, 4253),
     (4348, 4348), (4957, 4959), (5906, 5908), (5938, 5939), (5970, 5971), (6002, 6003),
     (6068, 6069), (6071, 6077), (6086, 6086), (6089, 6099), (6103, 6103), (6109, 6109),
     (6155, 6159), (6211, 6211), (6277, 6278), (6313, 6313), (6432, 6434), (6439, 6440),
     (6450, 6450), (6457, 6459), (6679, 6680), (6683, 6683), (6742, 6742), (6744, 6750),
     (6752, 6752), (6754, 6754), (6757, 6764), (6771, 6780), (6783, 6783), (6823, 6823),
     (6832, 6862), (6912, 6915), (6964, 6964), (6966, 6970), (6972, 6972), (6978, 6978),
     (7019, 7027), (7040, 7041), (7074, 7077), (7080, 7081), (7083, 7085), (7142, 7142),
     (7144, 7145), (7149, 7149), (7151, 7153), (7212, 7219), (7222, 7223), (7288, 7293),
     (7376, 7378), (7380, 7392), (7394, 7400), (7405, 7405), (7412, 7412), (7416, 7417),
     (7468, 7530), (7544, 7544), (7579, 7679), (8125, 8125), (8127, 8129), (8141, 8143),
     (8157, 8159), (8173, 8175), (8189, 8190), (8203, 8207), (8216, 8217), (8228, 8228),
     (8231, 8231), (8234, 8238), (8288, 8292), (8294, 8303), (8305, 8305), (8319, 8319),
     (8336, 8348), (8400, 8432), (11388, 11389), (11503, 11505), (11631, 11631),
     (11647, 11647), (11744, 11775), (11823, 11823), (12293, 12293), (12330, 12333),
     (12337, 12341), (12347, 12347), (12441, 12446), (12540, 12542), (40981, 40981),
     (42232, 42237), (42508, 42508), (42607, 42610), (42612, 42621), (42623, 42623),
     (42652, 42655), (42736, 42737), (42752, 42785), (42864, 42864), (42888, 42890),
     (42994, 42996), (43000, 43001), (43010, 43010), (43014, 43014), (43019, 43019),
     (43045, 43046), (43052, 43052), (43204, 43205), (43232, 43249), (43263, 43263),
     (43302, 43309), (43335, 43345), (43392, 43394), (43443, 43443), (43446, 43449),
     (43452, 43453), (43471, 43471), (43493, 43494), (43561, 43566), (43569, 43570),
     (43573, 43574), (43587, 43587), (43596, 43596), (43632, 43632), (43644, 43644),
     (43696, 43696), (43698, 43700), (43703, 43704), (43710, 43711), (43713, 43713),
     (43741, 43741), (43756, 43757), (43763, 43764), (43766, 43766), (43867, 43871),
     (43881, 43883), (44005, 44005), (44008, 44008), (44013, 44013), (64286, 64286),
     (64434, 64450), (65024, 65039), (65043, 65043), (65056, 65071), (65106, 65106),
     (65109, 65109), (65279, 65279), (65287, 65287), (65294, 65294), (65306, 65306),
     (65342, 65342), (65344, 65344), (65392, 65392), (65438, 65439), (65507, 65507),
     (65529, 65531), (66045, 66045), (66272, 66272), (66422, 66426), (67456, 67461),
     (67463, 67504), (67506, 67514), (68097, 68099), (68101, 68102), (68108, 68111),
     (68152, 68154), (68159, 68159), (68325, 68326), (68900, 68903), (69291, 69292),
     (69446, 69456), (69506, 69509), (69633, 69633), (69688, 69702), (69744, 69744),
     (69747, 69748), (69759, 69761), (69811, 69814), (69817, 69818), (69821, 69821),
     (69826, 69826), (69837, 69837), (69888, 69890), (69927, 69931), (69933, 69940),
     (70003, 70003), (70016, 70017), (70070, 70078), (70089, 70092), (70095, 70095),
     (70191, 70193), (70196, 70196), (70198, 70199), (70206, 70206), (70367, 70367),
     (70371, 70378), (70400, 70401), (70459, 70460), (70464, 70464), (70502, 70508),
     (70512, 70516), (70712, 70719), (70722, 70724), (70726, 70726), (70750, 70750),
     (70835, 70840), (70842, 70842), (70847, 70848), (70850, 70851), (71090, 71093),
     (71100, 71101), (71103, 71104), (71132, 71133), (71219, 71226), (71229, 71229),
     (71231, 71232), (71339, 71339), (71341, 71341), (71344, 71349), (71351, 71351),
     (71453, 71455), (71458, 71461), (71463, 71467), (71727, 71735), (71737, 71738),
     (71995, 71996), (71998, 71998), (72003, 72003), (72148, 72151), (72154, 72155),
     (72160, 72160), (72193, 72202), (72243, 72248), (72251, 72254), (72263, 72263),
     (72273, 72278), (72281, 72283), (72330, 72342), (72344, 72345), (72752, 72758),
     (72760, 72765), (72767, 72767), (72850, 72871), (72874, 72880), (72882, 72883),
     (72885, 72886), (73009, 73014), (73018, 73018), (73020, 73021), (73023, 73029),
     (73031, 73031), (73104, 73105), (73109, 73109), (73111, 73111), (73459, 73460),
     (78896, 78904), (92912, 92916), (92976, 92982), (92992, 92995), (94031, 94031),
     (94095, 94111), (94176, 94177), (94179, 94180), (110576, 110579), (110581, 110587),
     (110589, 110590), (113821, 113822), (113824, 113827), (118528, 118573), (118576, 118598),
     (119143, 119145), (119155, 119170), (119173, 119179), (119210, 119213), (119362, 119364),
     (121344, 121398), (121403, 121452), (121461, 121461), (121476, 121476), (121499, 121503),
     (121505, 121519), (122880, 122886), (122888, 122904), (122907, 122913), (122915, 122916),
     (122918, 122922), (123184, 123197), (123566, 123566), (123628, 123631), (125136, 125142),
     (125252, 125259), (127995, 127999), (917505, 917505), (917536, 917631), (917760, 917999)]"

text \<open>
  The cased code points that are not case-ignorable, as ranges \<open>(lo, hi)\<close>. The
  final-sigma test below asks whether a code point is cased only after it has skipped
  the case-ignorable ones, so these are the only code points the answer matters for.
\<close>

definition cased_tab :: "(nat \<times> nat) list" where
  "cased_tab =
    [(65, 90), (97, 122), (170, 170), (181, 181), (186, 186), (192, 214), (216, 246),
     (248, 442), (444, 447), (452, 659), (661, 687), (880, 883), (886, 887), (891, 893),
     (895, 895), (902, 902), (904, 906), (908, 908), (910, 929), (931, 1013), (1015, 1153),
     (1162, 1327), (1329, 1366), (1376, 1416), (4256, 4293), (4295, 4295), (4301, 4301),
     (4304, 4346), (4349, 4351), (5024, 5109), (5112, 5117), (7296, 7304), (7312, 7354),
     (7357, 7359), (7424, 7467), (7531, 7543), (7545, 7578), (7680, 7957), (7960, 7965),
     (7968, 8005), (8008, 8013), (8016, 8023), (8025, 8025), (8027, 8027), (8029, 8029),
     (8031, 8061), (8064, 8116), (8118, 8124), (8126, 8126), (8130, 8132), (8134, 8140),
     (8144, 8147), (8150, 8155), (8160, 8172), (8178, 8180), (8182, 8188), (8450, 8450),
     (8455, 8455), (8458, 8467), (8469, 8469), (8473, 8477), (8484, 8484), (8486, 8486),
     (8488, 8488), (8490, 8493), (8495, 8500), (8505, 8505), (8508, 8511), (8517, 8521),
     (8526, 8526), (8544, 8575), (8579, 8580), (9398, 9449), (11264, 11387), (11390, 11492),
     (11499, 11502), (11506, 11507), (11520, 11557), (11559, 11559), (11565, 11565),
     (42560, 42605), (42624, 42651), (42786, 42863), (42865, 42887), (42891, 42894),
     (42896, 42954), (42960, 42961), (42963, 42963), (42965, 42969), (42997, 42998),
     (43002, 43002), (43824, 43866), (43872, 43880), (43888, 43967), (64256, 64262),
     (64275, 64279), (65313, 65338), (65345, 65370), (66560, 66639), (66736, 66771),
     (66776, 66811), (66928, 66938), (66940, 66954), (66956, 66962), (66964, 66965),
     (66967, 66977), (66979, 66993), (66995, 67001), (67003, 67004), (68736, 68786),
     (68800, 68850), (71840, 71903), (93760, 93823), (119808, 119892), (119894, 119964),
     (119966, 119967), (119970, 119970), (119973, 119974), (119977, 119980), (119982, 119993),
     (119995, 119995), (119997, 120003), (120005, 120069), (120071, 120074), (120077, 120084),
     (120086, 120092), (120094, 120121), (120123, 120126), (120128, 120132), (120134, 120134),
     (120138, 120144), (120146, 120485), (120488, 120512), (120514, 120538), (120540, 120570),
     (120572, 120596), (120598, 120628), (120630, 120654), (120656, 120686), (120688, 120712),
     (120714, 120744), (120746, 120770), (120772, 120779), (122624, 122633), (122635, 122654),
     (125184, 125251), (127280, 127305), (127312, 127337), (127344, 127369)]"

subsection \<open>\<^verbatim>\<open>str.lower\<close> and \<^verbatim>\<open>str.upper\<close>\<close>

text \<open>The full lowercase and uppercase form of one code point.\<close>

definition lower_cp :: "codepoint \<Rightarrow> pystr" where
  "lower_cp c =
     (case special_lookup lower_special c of
        Some v \<Rightarrow> v
      | None \<Rightarrow> (case lower_simple c of Some l \<Rightarrow> [l] | None \<Rightarrow> [c]))"

definition upper_cp :: "codepoint \<Rightarrow> pystr" where
  "upper_cp c =
     (case special_lookup upper_special c of
        Some v \<Rightarrow> v
      | None \<Rightarrow> (case upper_simple c of Some u \<Rightarrow> [u] | None \<Rightarrow> [c]))"

text \<open>
  The one context-sensitive rule of \<^verbatim>\<open>str.lower\<close>: capital sigma, U+03A3, becomes the
  final sigma U+03C2 when a cased letter precedes it and none follows it, case-ignorable
  code points being skipped on both sides, and the small sigma U+03C3 otherwise. The
  first argument is the text before the sigma, nearest code point first.
\<close>

fun skip_ignorable :: "pystr \<Rightarrow> pystr" where
  "skip_ignorable [] = []"
| "skip_ignorable (c # cs) = (if in_ranges case_ignorable_tab c then skip_ignorable cs else c # cs)"

definition handle_capital_sigma :: "pystr \<Rightarrow> pystr \<Rightarrow> codepoint" where
  "handle_capital_sigma pre post =
     (let final_sigma =
            (case skip_ignorable pre of
               [] \<Rightarrow> False
             | c # _ \<Rightarrow> in_ranges cased_tab c
                 \<and> (case skip_ignorable post of [] \<Rightarrow> True | d # _ \<Rightarrow> \<not> in_ranges cased_tab d))
      in if final_sigma then 962 else 963)"

fun do_lower :: "pystr \<Rightarrow> pystr \<Rightarrow> pystr" where
  "do_lower pre [] = []"
| "do_lower pre (c # cs) =
     (if c = 931 then [handle_capital_sigma pre cs] else lower_cp c) @ do_lower (c # pre) cs"

definition py_lower :: "pystr \<Rightarrow> pystr" where
  "py_lower w = do_lower [] w"

definition py_upper :: "pystr \<Rightarrow> pystr" where
  "py_upper w = concat (map upper_cp w)"

subsection \<open>\<^verbatim>\<open>str.endswith\<close>, slicing and \<^verbatim>\<open>dict.get\<close>\<close>

definition endswith :: "pystr \<Rightarrow> pystr \<Rightarrow> bool" where
  "endswith w s = (length s \<le> length w \<and> drop (length w - length s) w = s)"

text \<open>
  \<^verbatim>\<open>w[:stop]\<close>: a negative \<^verbatim>\<open>stop\<close> counts from the end, and a bound outside the string
  is clamped, never an error. \<^verbatim>\<open>w[:-0]\<close> is \<^verbatim>\<open>w[:0]\<close>, the empty string.
\<close>

definition slice_to :: "pystr \<Rightarrow> int \<Rightarrow> pystr" where
  "slice_to w stop = (if stop < 0 then take (nat (int (length w) + stop)) w else take (nat stop) w)"

text \<open>\<^verbatim>\<open>d.get(k, default)\<close> on a dictionary literal, given as its list of items; where a
  literal repeats a key, the last item wins.\<close>

definition dict_get :: "('k \<times> 'v) list \<Rightarrow> 'k \<Rightarrow> 'v \<Rightarrow> 'v" where
  "dict_get d k dflt = (case map_of (rev d) k of Some v \<Rightarrow> v | None \<Rightarrow> dflt)"

section \<open>The notebook's two functions\<close>

text \<open>
  \<^verbatim>\<open>
  def stem_word_custom(word):
      word = word.lower()
      suffixes = ['ing', 'ed', 'er', 'est', 'ly', 's', 'es']
      for suffix in suffixes:
          if word.endswith(suffix):
              word = word[:-len(suffix)]
      return word
  \<close>
\<close>

definition suffixes_list :: "pystr list" where
  "suffixes_list = [lit ''ing'', lit ''ed'', lit ''er'', lit ''est'', lit ''ly'', lit ''s'', lit ''es'']"

text \<open>The loop: the word is the loop's only state; no branch leaves the loop early.\<close>

fun stem_loop :: "pystr \<Rightarrow> pystr list \<Rightarrow> pystr" where
  "stem_loop word [] = word"
| "stem_loop word (suf # rest) =
     stem_loop (if endswith word suf then slice_to word (- int (length suf)) else word) rest"

definition stem_word_custom :: "pystr \<Rightarrow> pystr" where
  "stem_word_custom word = stem_loop (py_lower word) suffixes_list"

text \<open>
  \<^verbatim>\<open>
  def lemmatize_word_custom(word):
      word = word.lower()
      word_forms = {'running': 'run', 'ran': 'run', 'runs': 'run', 'better': 'good',
                    'best': 'good', 'went': 'go', 'going': 'go', 'goes': 'go'}
      return word_forms.get(word, word)
  \<close>
\<close>

definition word_forms :: "(pystr \<times> pystr) list" where
  "word_forms =
     [(lit ''running'', lit ''run''), (lit ''ran'', lit ''run''), (lit ''runs'', lit ''run''),
      (lit ''better'', lit ''good''), (lit ''best'', lit ''good''), (lit ''went'', lit ''go''),
      (lit ''going'', lit ''go''), (lit ''goes'', lit ''go'')]"

definition lemmatize_word_custom :: "pystr \<Rightarrow> pystr" where
  "lemmatize_word_custom word = dict_get word_forms (py_lower word) (py_lower word)"

section \<open>Definitions used in the statements and proofs\<close>

text \<open>One removal step in the words of the specification: if the word ends with the
  suffix, the prefix obtained by removing the suffix's length from the end.\<close>

definition strip_suffix :: "pystr \<Rightarrow> pystr \<Rightarrow> pystr" where
  "strip_suffix w s = (if suffix s w then take (length w - length s) w else w)"

text \<open>The ASCII letters' case mappings, for the statements about ASCII words.\<close>

definition ascii_lower :: "codepoint \<Rightarrow> codepoint" where
  "ascii_lower c = (if 65 \<le> c \<and> c \<le> 90 then c + 32 else c)"

definition ascii_upper :: "codepoint \<Rightarrow> codepoint" where
  "ascii_upper c = (if 97 \<le> c \<and> c \<le> 122 then c - 32 else c)"

text \<open>A code point that \<^verbatim>\<open>str.lower\<close> leaves alone wherever it stands.\<close>

definition lower_fixed :: "codepoint \<Rightarrow> bool" where
  "lower_fixed v \<longleftrightarrow> v \<noteq> 931 \<and> lower_cp v = [v]"

text \<open>The code points a list of range entries maps to.\<close>

fun enum_from :: "nat \<Rightarrow> nat \<Rightarrow> nat \<Rightarrow> nat list" where
  "enum_from a st 0 = []"
| "enum_from a st (Suc n) = a # enum_from (a + st) st n"

fun images :: "(nat \<times> nat \<times> nat \<times> nat) list \<Rightarrow> codepoint list" where
  "images [] = []"
| "images ((lo, hi, st, tlo) # es) = enum_from tlo st ((hi - lo) div st + 1) @ images es"

section \<open>Lowercasing is idempotent\<close>

text \<open>
  Every code point that the lowercase table produces is itself left alone by the table,
  and is not the capital sigma. Each block of the table is checked entry by entry.
\<close>

lemma enum_from_unfold:
  "enum_from a st n = (if n = 0 then [] else a # enum_from (a + st) st (n - 1))"
  by (cases n) simp_all

lemma set_enum_from: "set (enum_from a st n) = {a + k * st | k. k < n}"
proof (induction n arbitrary: a)
  case 0
  then show ?case by simp
next
  case (Suc n)
  have "{a + k * st | k. k < Suc n} = insert a {(a + st) + k * st | k. k < n}"
  proof (intro set_eqI iffI)
    fix x assume "x \<in> {a + k * st | k. k < Suc n}"
    then obtain k where k: "x = a + k * st" "k < Suc n" by blast
    show "x \<in> insert a {(a + st) + k * st | k. k < n}"
    proof (cases k)
      case 0
      with k show ?thesis by simp
    next
      case (Suc j)
      with k have "x = (a + st) + j * st" "j < n" by simp_all
      then show ?thesis by blast
    qed
  next
    fix x assume "x \<in> insert a {(a + st) + k * st | k. k < n}"
    then consider "x = a" | k where "x = (a + st) + k * st" "k < n" by blast
    then show "x \<in> {a + k * st | k. k < Suc n}"
    proof cases
      case 1
      then have "x = a + 0 * st" "0 < Suc n" by simp_all
      then show ?thesis by blast
    next
      case 2
      then have "x = a + Suc k * st" "Suc k < Suc n" by simp_all
      then show ?thesis by blast
    qed
  qed
  with Suc show ?case by simp
qed

lemma range_lookup_image: "range_lookup es c = Some v \<Longrightarrow> v \<in> set (images es)"
proof (induction es)
  case Nil
  then show ?case by simp
next
  case (Cons e es)
  obtain lo hi st tlo where e: "e = (lo, hi, st, tlo)" by (cases e)
  show ?case
  proof (cases "lo \<le> c \<and> c \<le> hi \<and> (c - lo) mod st = 0")
    case True
    with Cons.prems e have v: "v = tlo + (c - lo)" by (simp split: if_splits)
    from True have "c - lo = (c - lo) div st * st" by (metis mod_0_imp_dvd dvd_div_mult_self)
    moreover from True have "(c - lo) div st < (hi - lo) div st + 1"
      by (simp add: div_le_mono diff_le_mono less_Suc_eq_le)
    ultimately have "v \<in> {tlo + k * st | k. k < (hi - lo) div st + 1}"
      using v by (metis (mono_tags, lifting) mem_Collect_eq)
    then have "v \<in> set (enum_from tlo st ((hi - lo) div st + 1))"
      unfolding set_enum_from .
    then show ?thesis using e by auto
  next
    case False
    with Cons.prems e have "range_lookup es c = Some v" by (auto split: if_splits)
    with Cons.IH e show ?thesis by simp
  qed
qed

lemma block_fixed:
  "range_lookup es c = Some v \<Longrightarrow> list_all lower_fixed (images es) \<Longrightarrow> lower_fixed v"
  by (auto simp: list_all_iff dest: range_lookup_image)

lemmas lower_eval =
  lower_fixed_def lower_cp_def lower_special_def lower_simple_def enum_from_unfold
  lower_tab_0_def lower_tab_1_def lower_tab_2_def lower_tab_3_def lower_tab_4_def
  lower_tab_5_def lower_tab_6_def lower_tab_7_def lower_tab_8_def lower_tab_9_def
  lower_tab_10_def lower_tab_11_def lower_tab_12_def lower_tab_13_def lower_tab_14_def
  lower_tab_15_def lower_tab_16_def lower_tab_17_def lower_tab_18_def lower_tab_19_def
  lower_tab_20_def lower_tab_21_def lower_tab_22_def lower_tab_23_def lower_tab_24_def
  lower_tab_25_def lower_tab_26_def lower_tab_27_def lower_tab_28_def lower_tab_29_def
  lower_tab_30_def lower_tab_31_def lower_tab_32_def lower_tab_33_def lower_tab_34_def
  lower_tab_35_def lower_tab_36_def lower_tab_37_def lower_tab_38_def lower_tab_39_def
  lower_tab_40_def lower_tab_41_def lower_tab_42_def lower_tab_43_def

lemma lower_tab_0_fixed: "range_lookup lower_tab_0 c = Some v \<Longrightarrow> lower_fixed v"
  by (erule block_fixed) (simp add: lower_eval)

lemma lower_tab_1_fixed: "range_lookup lower_tab_1 c = Some v \<Longrightarrow> lower_fixed v"
  by (erule block_fixed) (simp add: lower_eval)

lemma lower_tab_2_fixed: "range_lookup lower_tab_2 c = Some v \<Longrightarrow> lower_fixed v"
  by (erule block_fixed) (simp add: lower_eval)

lemma lower_tab_3_fixed: "range_lookup lower_tab_3 c = Some v \<Longrightarrow> lower_fixed v"
  by (erule block_fixed) (simp add: lower_eval)

lemma lower_tab_4_fixed: "range_lookup lower_tab_4 c = Some v \<Longrightarrow> lower_fixed v"
  by (erule block_fixed) (simp add: lower_eval)

lemma lower_tab_5_fixed: "range_lookup lower_tab_5 c = Some v \<Longrightarrow> lower_fixed v"
  by (erule block_fixed) (simp add: lower_eval)

lemma lower_tab_6_fixed: "range_lookup lower_tab_6 c = Some v \<Longrightarrow> lower_fixed v"
  by (erule block_fixed) (simp add: lower_eval)

lemma lower_tab_7_fixed: "range_lookup lower_tab_7 c = Some v \<Longrightarrow> lower_fixed v"
  by (erule block_fixed) (simp add: lower_eval)

lemma lower_tab_8_fixed: "range_lookup lower_tab_8 c = Some v \<Longrightarrow> lower_fixed v"
  by (erule block_fixed) (simp add: lower_eval)

lemma lower_tab_9_fixed: "range_lookup lower_tab_9 c = Some v \<Longrightarrow> lower_fixed v"
  by (erule block_fixed) (simp add: lower_eval)

lemma lower_tab_10_fixed: "range_lookup lower_tab_10 c = Some v \<Longrightarrow> lower_fixed v"
  by (erule block_fixed) (simp add: lower_eval)

lemma lower_tab_11_fixed: "range_lookup lower_tab_11 c = Some v \<Longrightarrow> lower_fixed v"
  by (erule block_fixed) (simp add: lower_eval)

lemma lower_tab_12_fixed: "range_lookup lower_tab_12 c = Some v \<Longrightarrow> lower_fixed v"
  by (erule block_fixed) (simp add: lower_eval)

lemma lower_tab_13_fixed: "range_lookup lower_tab_13 c = Some v \<Longrightarrow> lower_fixed v"
  by (erule block_fixed) (simp add: lower_eval)

lemma lower_tab_14_fixed: "range_lookup lower_tab_14 c = Some v \<Longrightarrow> lower_fixed v"
  by (erule block_fixed) (simp add: lower_eval)

lemma lower_tab_15_fixed: "range_lookup lower_tab_15 c = Some v \<Longrightarrow> lower_fixed v"
  by (erule block_fixed) (simp add: lower_eval)

lemma lower_tab_16_fixed: "range_lookup lower_tab_16 c = Some v \<Longrightarrow> lower_fixed v"
  by (erule block_fixed) (simp add: lower_eval)

lemma lower_tab_17_fixed: "range_lookup lower_tab_17 c = Some v \<Longrightarrow> lower_fixed v"
  by (erule block_fixed) (simp add: lower_eval)

lemma lower_tab_18_fixed: "range_lookup lower_tab_18 c = Some v \<Longrightarrow> lower_fixed v"
  by (erule block_fixed) (simp add: lower_eval)

lemma lower_tab_19_fixed: "range_lookup lower_tab_19 c = Some v \<Longrightarrow> lower_fixed v"
  by (erule block_fixed) (simp add: lower_eval)

lemma lower_tab_20_fixed: "range_lookup lower_tab_20 c = Some v \<Longrightarrow> lower_fixed v"
  by (erule block_fixed) (simp add: lower_eval)

lemma lower_tab_21_fixed: "range_lookup lower_tab_21 c = Some v \<Longrightarrow> lower_fixed v"
  by (erule block_fixed) (simp add: lower_eval)

lemma lower_tab_22_fixed: "range_lookup lower_tab_22 c = Some v \<Longrightarrow> lower_fixed v"
  by (erule block_fixed) (simp add: lower_eval)

lemma lower_tab_23_fixed: "range_lookup lower_tab_23 c = Some v \<Longrightarrow> lower_fixed v"
  by (erule block_fixed) (simp add: lower_eval)

lemma lower_tab_24_fixed: "range_lookup lower_tab_24 c = Some v \<Longrightarrow> lower_fixed v"
  by (erule block_fixed) (simp add: lower_eval)

lemma lower_tab_25_fixed: "range_lookup lower_tab_25 c = Some v \<Longrightarrow> lower_fixed v"
  by (erule block_fixed) (simp add: lower_eval)

lemma lower_tab_26_fixed: "range_lookup lower_tab_26 c = Some v \<Longrightarrow> lower_fixed v"
  by (erule block_fixed) (simp add: lower_eval)

lemma lower_tab_27_fixed: "range_lookup lower_tab_27 c = Some v \<Longrightarrow> lower_fixed v"
  by (erule block_fixed) (simp add: lower_eval)

lemma lower_tab_28_fixed: "range_lookup lower_tab_28 c = Some v \<Longrightarrow> lower_fixed v"
  by (erule block_fixed) (simp add: lower_eval)

lemma lower_tab_29_fixed: "range_lookup lower_tab_29 c = Some v \<Longrightarrow> lower_fixed v"
  by (erule block_fixed) (simp add: lower_eval)

lemma lower_tab_30_fixed: "range_lookup lower_tab_30 c = Some v \<Longrightarrow> lower_fixed v"
  by (erule block_fixed) (simp add: lower_eval)

lemma lower_tab_31_fixed: "range_lookup lower_tab_31 c = Some v \<Longrightarrow> lower_fixed v"
  by (erule block_fixed) (simp add: lower_eval)

lemma lower_tab_32_fixed: "range_lookup lower_tab_32 c = Some v \<Longrightarrow> lower_fixed v"
  by (erule block_fixed) (simp add: lower_eval)

lemma lower_tab_33_fixed: "range_lookup lower_tab_33 c = Some v \<Longrightarrow> lower_fixed v"
  by (erule block_fixed) (simp add: lower_eval)

lemma lower_tab_34_fixed: "range_lookup lower_tab_34 c = Some v \<Longrightarrow> lower_fixed v"
  by (erule block_fixed) (simp add: lower_eval)

lemma lower_tab_35_fixed: "range_lookup lower_tab_35 c = Some v \<Longrightarrow> lower_fixed v"
  by (erule block_fixed) (simp add: lower_eval)

lemma lower_tab_36_fixed: "range_lookup lower_tab_36 c = Some v \<Longrightarrow> lower_fixed v"
  by (erule block_fixed) (simp add: lower_eval)

lemma lower_tab_37_fixed: "range_lookup lower_tab_37 c = Some v \<Longrightarrow> lower_fixed v"
  by (erule block_fixed) (simp add: lower_eval)

lemma lower_tab_38_fixed: "range_lookup lower_tab_38 c = Some v \<Longrightarrow> lower_fixed v"
  by (erule block_fixed) (simp add: lower_eval)

lemma lower_tab_39_fixed: "range_lookup lower_tab_39 c = Some v \<Longrightarrow> lower_fixed v"
  by (erule block_fixed) (simp add: lower_eval)

lemma lower_tab_40_fixed: "range_lookup lower_tab_40 c = Some v \<Longrightarrow> lower_fixed v"
  by (erule block_fixed) (simp add: lower_eval)

lemma lower_tab_41_fixed: "range_lookup lower_tab_41 c = Some v \<Longrightarrow> lower_fixed v"
  by (erule block_fixed) (simp add: lower_eval)

lemma lower_tab_42_fixed: "range_lookup lower_tab_42 c = Some v \<Longrightarrow> lower_fixed v"
  by (erule block_fixed) (simp add: lower_eval)

lemma lower_tab_43_fixed: "range_lookup lower_tab_43 c = Some v \<Longrightarrow> lower_fixed v"
  by (erule block_fixed) (simp add: lower_eval)

lemmas lower_tab_fixed =
  lower_tab_0_fixed lower_tab_1_fixed lower_tab_2_fixed lower_tab_3_fixed
  lower_tab_4_fixed lower_tab_5_fixed lower_tab_6_fixed lower_tab_7_fixed
  lower_tab_8_fixed lower_tab_9_fixed lower_tab_10_fixed lower_tab_11_fixed
  lower_tab_12_fixed lower_tab_13_fixed lower_tab_14_fixed lower_tab_15_fixed
  lower_tab_16_fixed lower_tab_17_fixed lower_tab_18_fixed lower_tab_19_fixed
  lower_tab_20_fixed lower_tab_21_fixed lower_tab_22_fixed lower_tab_23_fixed
  lower_tab_24_fixed lower_tab_25_fixed lower_tab_26_fixed lower_tab_27_fixed
  lower_tab_28_fixed lower_tab_29_fixed lower_tab_30_fixed lower_tab_31_fixed
  lower_tab_32_fixed lower_tab_33_fixed lower_tab_34_fixed lower_tab_35_fixed
  lower_tab_36_fixed lower_tab_37_fixed lower_tab_38_fixed lower_tab_39_fixed
  lower_tab_40_fixed lower_tab_41_fixed lower_tab_42_fixed lower_tab_43_fixed

lemma lower_simple_fixed: "lower_simple c = Some v \<Longrightarrow> lower_fixed v"
  unfolding lower_simple_def by (auto split: if_splits elim: lower_tab_fixed)

lemma lower_simple_sigma: "lower_simple 931 = Some 963"
  by (simp add: lower_eval)

lemma special_lookup_lower:
  "special_lookup lower_special c = (if c = 304 then Some [105, 775] else None)"
  by (simp add: lower_special_def)

lemma lower_fixed_consts: "lower_fixed 105" "lower_fixed 775" "lower_fixed 962" "lower_fixed 963"
  by (simp_all add: lower_eval)

lemma lower_cp_fixed: "x \<in> set (lower_cp c) \<Longrightarrow> lower_fixed x"
proof (cases "c = 304")
  case True
  assume "x \<in> set (lower_cp c)"
  with True have "x = 105 \<or> x = 775" by (simp add: lower_cp_def special_lookup_lower)
  then show ?thesis using lower_fixed_consts by auto
next
  case False
  assume x: "x \<in> set (lower_cp c)"
  show ?thesis
  proof (cases "lower_simple c")
    case None
    with False x have "x = c" "lower_cp c = [c]"
      by (simp_all add: lower_cp_def special_lookup_lower)
    moreover from None have "c \<noteq> 931" using lower_simple_sigma by auto
    ultimately show ?thesis by (simp add: lower_fixed_def)
  next
    case (Some l)
    with False x have "x = l" by (simp add: lower_cp_def special_lookup_lower)
    with Some show ?thesis by (simp add: lower_simple_fixed)
  qed
qed

lemma handle_capital_sigma_fixed: "lower_fixed (handle_capital_sigma pre post)"
  by (simp add: handle_capital_sigma_def Let_def lower_fixed_consts)

lemma do_lower_fixed: "x \<in> set (do_lower pre w) \<Longrightarrow> lower_fixed x"
  by (induction w arbitrary: pre)
     (auto simp: handle_capital_sigma_fixed lower_cp_fixed split: if_splits)

lemma do_lower_id: "\<forall>x\<in>set w. lower_fixed x \<Longrightarrow> do_lower pre w = w"
  by (induction w arbitrary: pre) (auto simp: lower_fixed_def)

lemma py_lower_idem: "py_lower (py_lower w) = py_lower w"
  unfolding py_lower_def by (rule do_lower_id) (simp add: do_lower_fixed)

text \<open>Only U+0130 changes the length of a string that is lowercased.\<close>

lemma length_lower_cp: "c \<noteq> 304 \<Longrightarrow> length (lower_cp c) = 1"
  by (simp add: lower_cp_def special_lookup_lower split: option.splits)

lemma length_do_lower: "304 \<notin> set w \<Longrightarrow> length (do_lower pre w) = length w"
  by (induction w arbitrary: pre) (auto simp: length_lower_cp)

section \<open>ASCII words\<close>

lemma lower_cp_ascii: "c < 128 \<Longrightarrow> lower_cp c = [ascii_lower c]"
  by (simp add: lower_cp_def special_lookup_lower lower_simple_def lower_tab_0_def
      lower_tab_1_def ascii_lower_def)

lemma upper_cp_ascii: "c < 128 \<Longrightarrow> upper_cp c = [ascii_upper c]"
  by (simp add: upper_cp_def upper_special_def upper_simple_def upper_tab_0_def ascii_upper_def)

lemma do_lower_ascii: "\<forall>c\<in>set w. c < 128 \<Longrightarrow> do_lower pre w = map ascii_lower w"
  by (induction w arbitrary: pre) (auto simp: lower_cp_ascii)

lemma py_upper_ascii: "\<forall>c\<in>set w. c < 128 \<Longrightarrow> py_upper w = map ascii_upper w"
  unfolding py_upper_def by (induction w) (auto simp: upper_cp_ascii)

lemma ascii_lower_upper: "c < 128 \<Longrightarrow> ascii_lower (ascii_upper c) = ascii_lower c"
  by (auto simp: ascii_lower_def ascii_upper_def)

lemma ascii_upper_less: "c < 128 \<Longrightarrow> ascii_upper c < 128"
  by (auto simp: ascii_upper_def)

lemma py_lower_upper_ascii: "\<forall>c\<in>set w. c < 128 \<Longrightarrow> py_lower (py_upper w) = py_lower w"
  by (simp add: py_lower_def py_upper_ascii do_lower_ascii ascii_upper_less ascii_lower_upper)

section \<open>The suffix test, the slice and the loop\<close>

lemma endswith_suffix: "endswith w s \<longleftrightarrow> suffix s w"
proof
  assume "endswith w s"
  then have "w = take (length w - length s) w @ s"
    by (metis append_take_drop_id endswith_def)
  then show "suffix s w" by (metis suffixI)
next
  assume "suffix s w"
  then obtain p where "w = p @ s" by (auto simp: suffix_def)
  then show "endswith w s" by (simp add: endswith_def)
qed

lemma slice_to_prefix: "prefix (slice_to w i) w"
  by (simp add: slice_to_def take_is_prefix)

text \<open>For a suffix that is not empty, the loop body is the specification's removal step.\<close>

lemma stem_step_strip:
  "s \<noteq> [] \<Longrightarrow> (if endswith w s then slice_to w (- int (length s)) else w) = strip_suffix w s"
proof -
  assume "s \<noteq> []"
  then have "- int (length s) < 0" by simp
  then have "slice_to w (- int (length s)) = take (length w - length s) w"
    by (simp add: slice_to_def nat_diff_distrib')
  then show ?thesis by (simp add: strip_suffix_def endswith_suffix)
qed

lemma strip_suffix_append: "strip_suffix (p @ s) s = p"
  by (simp add: strip_suffix_def suffix_def)

lemma stem_loop_foldl: "[] \<notin> set ss \<Longrightarrow> stem_loop w ss = foldl strip_suffix w ss"
proof (induction ss arbitrary: w)
  case Nil
  then show ?case by simp
next
  case (Cons s ss)
  then have "s \<noteq> []" and "[] \<notin> set ss" by auto
  with Cons.IH show ?case by (simp add: stem_step_strip)
qed

lemma stem_loop_prefix: "prefix (stem_loop w ss) w"
proof (induction ss arbitrary: w)
  case Nil
  then show ?case by simp
next
  case (Cons s ss)
  let ?w' = "if endswith w s then slice_to w (- int (length s)) else w"
  have "prefix ?w' w" by (simp add: slice_to_prefix)
  moreover have "prefix (stem_loop ?w' ss) ?w'" by (rule Cons.IH)
  ultimately show ?case by (metis prefix_order.order_trans stem_loop.simps(2))
qed

lemma stem_loop_no_match: "\<forall>s\<in>set ss. \<not> endswith w s \<Longrightarrow> stem_loop w ss = w"
  by (induction ss) simp_all

section \<open>The dictionary lookup\<close>

lemma dict_get_cases: "dict_get d k dflt = dflt \<or> dict_get d k dflt \<in> snd ` set d"
proof (cases "map_of (rev d) k")
  case None
  then show ?thesis by (simp add: dict_get_def)
next
  case (Some v)
  then have "(k, v) \<in> set d" using map_of_SomeD by fastforce
  then have "v \<in> snd ` set d" by force
  with Some show ?thesis by (simp add: dict_get_def)
qed

lemma dict_get_miss: "k \<notin> fst ` set d \<Longrightarrow> dict_get d k dflt = dflt"
proof -
  assume "k \<notin> fst ` set d"
  then have "map_of (rev d) k = None" by (simp add: map_of_eq_None_iff)
  then show ?thesis by (simp add: dict_get_def)
qed

section \<open>Evaluation on words of Latin letters\<close>

text \<open>The equations that evaluate lowercasing, uppercasing and the two functions on a
  word whose code points lie below U+0148.\<close>

lemmas lower_word_eval =
  py_lower_def lower_cp_def lower_special_def lower_simple_def lower_tab_0_def lower_tab_1_def
  lower_tab_2_def lit_def

lemmas upper_word_eval =
  py_upper_def upper_cp_def upper_special_def upper_simple_def upper_tab_0_def

lemmas stem_eval =
  lower_word_eval stem_word_custom_def suffixes_list_def endswith_def slice_to_def

lemmas lemma_eval =
  lower_word_eval lemmatize_word_custom_def word_forms_def dict_get_def

section \<open>The suffix stripper\<close>

text \<open>
  C1, as amended. For every word, \<open>stem_word_custom\<close> lowercases the word and then applies
  the removal step for \<open>ing\<close>, \<open>ed\<close>, \<open>er\<close>, \<open>est\<close>, \<open>ly\<close>, \<open>s\<close>, \<open>es\<close>, in this order,
  each step to the result of the step before, none of them ending the scan. So
  \<open>princess\<close> loses \<open>s\<close> and then \<open>es\<close> and becomes \<open>princ\<close>, while \<open>classes\<close> loses
  only its \<open>s\<close>: what is left, \<open>classe\<close>, does not end with \<open>es\<close>.
\<close>

theorem stem_word_custom_cascade:
  "stem_word_custom w =
     strip_suffix (strip_suffix (strip_suffix (strip_suffix (strip_suffix (strip_suffix
       (strip_suffix (py_lower w) (lit ''ing'')) (lit ''ed'')) (lit ''er'')) (lit ''est''))
       (lit ''ly'')) (lit ''s'')) (lit ''es'')
   \<and> stem_word_custom (lit ''classes'') = lit ''classe''
   \<and> stem_word_custom (lit ''princess'') = lit ''princ''"
proof (intro conjI)
  have "[] \<notin> set suffixes_list" by (simp add: suffixes_list_def lit_def)
  then have "stem_word_custom w = foldl strip_suffix (py_lower w) suffixes_list"
    by (simp add: stem_word_custom_def stem_loop_foldl)
  then show "stem_word_custom w =
     strip_suffix (strip_suffix (strip_suffix (strip_suffix (strip_suffix (strip_suffix
       (strip_suffix (py_lower w) (lit ''ing'')) (lit ''ed'')) (lit ''er'')) (lit ''est''))
       (lit ''ly'')) (lit ''s'')) (lit ''es'')"
    by (simp add: suffixes_list_def)
  show "stem_word_custom (lit ''classes'') = lit ''classe''" by (simp add: stem_eval)
  show "stem_word_custom (lit ''princess'') = lit ''princ''" by (simp add: stem_eval)
qed

text \<open>C1 as stated gives \<open>class\<close> for \<open>classes\<close>; the function returns \<open>classe\<close>.\<close>

theorem stem_classes_counterexample: "stem_word_custom (lit ''classes'') \<noteq> lit ''class''"
  by (simp add: stem_eval)

text \<open>
  C2. \<open>running\<close> becomes \<open>runn\<close> (and not \<open>run\<close>), \<open>cats\<close> becomes \<open>cat\<close> and \<open>fastest\<close>
  becomes \<open>fast\<close>.
\<close>

theorem stem_word_custom_examples:
  "stem_word_custom (lit ''running'') = lit ''runn''
   \<and> stem_word_custom (lit ''running'') \<noteq> lit ''run''
   \<and> stem_word_custom (lit ''cats'') = lit ''cat''
   \<and> stem_word_custom (lit ''fastest'') = lit ''fast''"
  by (simp add: stem_eval)

text \<open>
  C5. A word whose lowercase form ends with none of the seven suffixes is returned
  lowercased and otherwise unchanged.
\<close>

theorem stem_no_match_identity:
  "\<forall>s\<in>set suffixes_list. \<not> endswith (py_lower w) s \<Longrightarrow> stem_word_custom w = py_lower w"
  by (simp add: stem_word_custom_def stem_loop_no_match)

theorem stem_no_match_identity_witness:
  "list_all (\<lambda>s. \<not> endswith (py_lower (lit ''Walk'')) s) suffixes_list
   \<and> stem_word_custom (lit ''Walk'') = lit ''walk''"
proof -
  have low: "py_lower (lit ''Walk'') = lit ''walk''" by (simp add: stem_eval)
  have h: "\<forall>s\<in>set suffixes_list. \<not> endswith (py_lower (lit ''Walk'')) s"
    unfolding low by (simp add: suffixes_list_def lit_def endswith_def)
  show ?thesis using h stem_no_match_identity [OF h] low by (simp add: list_all_iff)
qed

text \<open>
  C6. Lowercasing a word before it is passed to \<open>stem_word_custom\<close> does not change the
  result. This holds for every string of code points, since \<^verbatim>\<open>str.lower\<close> is idempotent.
\<close>

theorem stem_word_custom_lower: "stem_word_custom w = stem_word_custom (py_lower w)"
  by (simp add: stem_word_custom_def py_lower_idem)

text \<open>
  C9, as amended. The result of \<open>stem_word_custom\<close> is a prefix of the lowercased word:
  only trailing code points are removed and the rest is the lowercased word's, so the
  result is never longer than the lowercased word. It is never longer than the word
  itself when the word does not contain U+0130, the one code point whose lowercase form
  has two code points.
\<close>

theorem stem_word_custom_prefix:
  "prefix (stem_word_custom w) (py_lower w)
   \<and> length (stem_word_custom w) \<le> length (py_lower w)
   \<and> (304 \<notin> set w \<longrightarrow> length (stem_word_custom w) \<le> length w)"
proof -
  have p: "prefix (stem_word_custom w) (py_lower w)"
    unfolding stem_word_custom_def by (rule stem_loop_prefix)
  then have l: "length (stem_word_custom w) \<le> length (py_lower w)" by (rule prefix_length_le)
  have "304 \<notin> set w \<Longrightarrow> length (py_lower w) = length w"
    by (simp add: py_lower_def length_do_lower)
  with p l show ?thesis by auto
qed

theorem stem_word_custom_prefix_witness:
  "304 \<notin> set (lit ''Running'')
   \<and> prefix (stem_word_custom (lit ''Running'')) (py_lower (lit ''Running''))
   \<and> length (stem_word_custom (lit ''Running'')) \<le> length (lit ''Running'')"
proof -
  have h: "304 \<notin> set (lit ''Running'')" by (simp add: lit_def)
  show ?thesis using h stem_word_custom_prefix [of "lit ''Running''"] by simp
qed

text \<open>
  C9 as stated says that the output is never longer than the input. The word that is the
  single code point U+0130 has the output \<open>i\<close>, U+0307, of length two.
\<close>

theorem stem_longer_than_input_counterexample:
  "\<not> length (stem_word_custom [304]) \<le> length [304::nat]"
  by (simp add: stem_eval)

text \<open>
  C10. \<open>stem_word_custom\<close> is not idempotent: \<open>inging\<close> becomes \<open>ing\<close>, and \<open>ing\<close> becomes
  the empty string.
\<close>

theorem stem_word_custom_not_idempotent:
  "stem_word_custom (lit ''inging'') = lit ''ing''
   \<and> stem_word_custom (lit ''ing'') = []
   \<and> stem_word_custom (stem_word_custom (lit ''inging'')) \<noteq> stem_word_custom (lit ''inging'')"
proof -
  have a: "stem_word_custom (lit ''inging'') = lit ''ing''" by (simp add: stem_eval)
  have b: "stem_word_custom (lit ''ing'') = []" by (simp add: stem_eval)
  show ?thesis unfolding a b by (simp add: lit_def)
qed

section \<open>The lemma lookup\<close>

text \<open>
  C3, as amended. The table holds the entries \<open>running\<close> to \<open>run\<close>, \<open>ran\<close> to \<open>run\<close>,
  \<open>better\<close> to \<open>good\<close> and \<open>went\<close> to \<open>go\<close>, and \<open>lemmatize_word_custom\<close> returns these
  lemmas. They are four of its eight entries: the table also maps \<open>runs\<close> to \<open>run\<close>,
  \<open>best\<close> to \<open>good\<close>, \<open>going\<close> to \<open>go\<close> and \<open>goes\<close> to \<open>go\<close>, and nothing else.
\<close>

theorem lemmatize_table_entries:
  "lemmatize_word_custom (lit ''running'') = lit ''run''
   \<and> lemmatize_word_custom (lit ''ran'') = lit ''run''
   \<and> lemmatize_word_custom (lit ''better'') = lit ''good''
   \<and> lemmatize_word_custom (lit ''went'') = lit ''go''
   \<and> set word_forms =
       {(lit ''running'', lit ''run''), (lit ''ran'', lit ''run''), (lit ''better'', lit ''good''),
        (lit ''went'', lit ''go'')}
       \<union> {(lit ''runs'', lit ''run''), (lit ''best'', lit ''good''), (lit ''going'', lit ''go''),
          (lit ''goes'', lit ''go'')}
   \<and> length word_forms = 8
   \<and> lemmatize_word_custom (lit ''runs'') = lit ''run''
   \<and> lemmatize_word_custom (lit ''best'') = lit ''good''
   \<and> lemmatize_word_custom (lit ''going'') = lit ''go''
   \<and> lemmatize_word_custom (lit ''goes'') = lit ''go''"
proof (intro conjI)
  show "set word_forms =
       {(lit ''running'', lit ''run''), (lit ''ran'', lit ''run''), (lit ''better'', lit ''good''),
        (lit ''went'', lit ''go'')}
       \<union> {(lit ''runs'', lit ''run''), (lit ''best'', lit ''good''), (lit ''going'', lit ''go''),
          (lit ''goes'', lit ''go'')}"
    unfolding word_forms_def by auto
  show "length word_forms = 8" by (simp add: word_forms_def)
qed (simp_all add: lemma_eval)

text \<open>
  C3 as stated says that the table contains exactly the four named entries. It also has
  the key \<open>runs\<close>, which is therefore not returned unchanged.
\<close>

theorem word_forms_exactly_named_counterexample:
  "set word_forms \<noteq>
     {(lit ''running'', lit ''run''), (lit ''ran'', lit ''run''), (lit ''better'', lit ''good''),
      (lit ''went'', lit ''go'')}
   \<and> lit ''runs'' \<in> fst ` set word_forms
   \<and> lemmatize_word_custom (lit ''runs'') \<noteq> lit ''runs''"
proof -
  have m: "(lit ''runs'', lit ''run'') \<in> set word_forms" by (simp add: word_forms_def)
  have n: "(lit ''runs'', lit ''run'') \<notin>
     {(lit ''running'', lit ''run''), (lit ''ran'', lit ''run''), (lit ''better'', lit ''good''),
      (lit ''went'', lit ''go'')}" by (simp add: lit_def)
  from m n have "set word_forms \<noteq>
     {(lit ''running'', lit ''run''), (lit ''ran'', lit ''run''), (lit ''better'', lit ''good''),
      (lit ''went'', lit ''go'')}" by metis
  moreover from m have "lit ''runs'' \<in> fst ` set word_forms" by force
  moreover have "lemmatize_word_custom (lit ''runs'') \<noteq> lit ''runs''" by (simp add: lemma_eval)
  ultimately show ?thesis by simp
qed

text \<open>
  C4. When the lowercased word is not a key of the table, \<open>lemmatize_word_custom\<close> returns
  the lowercased word; \<open>dog\<close> and \<open>DOG\<close> both give \<open>dog\<close>.
\<close>

theorem lemmatize_fallback:
  "py_lower w \<notin> fst ` set word_forms \<Longrightarrow> lemmatize_word_custom w = py_lower w"
  by (simp add: lemmatize_word_custom_def dict_get_miss)

theorem lemmatize_fallback_witness:
  "py_lower (lit ''dog'') \<notin> fst ` set word_forms
   \<and> lemmatize_word_custom (lit ''dog'') = lit ''dog''
   \<and> py_lower (lit ''DOG'') \<notin> fst ` set word_forms
   \<and> lemmatize_word_custom (lit ''DOG'') = lit ''dog''"
proof -
  have low: "py_lower (lit ''dog'') = lit ''dog''" "py_lower (lit ''DOG'') = lit ''dog''"
    by (simp_all add: lemma_eval)
  have miss: "lit ''dog'' \<notin> fst ` set word_forms" by (simp add: word_forms_def lit_def)
  from miss low have h1: "py_lower (lit ''dog'') \<notin> fst ` set word_forms" by simp
  from miss low have h2: "py_lower (lit ''DOG'') \<notin> fst ` set word_forms" by simp
  show ?thesis
    using h1 h2 lemmatize_fallback [OF h1] lemmatize_fallback [OF h2] low by simp
qed

text \<open>
  C7, as amended. For every word whose uppercased form lowercases to the same string as
  the word itself, \<open>lemmatize_word_custom\<close> returns the same lemma for the uppercased and
  for the lowercased word. Every word of ASCII code points is such a word, and so are
  words beyond ASCII such as \<open>E\<close>-acute \<open>cole\<close>.
\<close>

theorem lemmatize_upper_lower_roundtrip:
  "(py_lower (py_upper w) = py_lower w \<longrightarrow>
      lemmatize_word_custom (py_upper w) = lemmatize_word_custom (py_lower w))
   \<and> ((\<forall>c\<in>set w. c < 128) \<longrightarrow> py_lower (py_upper w) = py_lower w)"
  by (simp add: lemmatize_word_custom_def py_lower_upper_ascii py_lower_idem)

theorem lemmatize_upper_lower_roundtrip_witness:
  "py_lower (py_upper [201, 99, 111, 108, 101]) = py_lower [201, 99, 111, 108, 101]
   \<and> lemmatize_word_custom (py_upper [201, 99, 111, 108, 101])
       = lemmatize_word_custom (py_lower [201, 99, 111, 108, 101])
   \<and> list_all (\<lambda>c. c < 128) (lit ''Running'')
   \<and> py_lower (py_upper (lit ''Running'')) = py_lower (lit ''Running'')
   \<and> lemmatize_word_custom (py_upper (lit ''Running''))
       = lemmatize_word_custom (py_lower (lit ''Running''))
   \<and> lemmatize_word_custom (py_upper (lit ''Running'')) = lit ''run''"
proof -
  have e: "py_lower (py_upper [201, 99, 111, 108, 101]) = py_lower [201, 99, 111, 108, 101]"
    by (simp add: lower_word_eval upper_word_eval)
  have h: "\<forall>c\<in>set (lit ''Running''). c < 128" by (simp add: lit_def)
  have r: "lemmatize_word_custom (py_lower (lit ''Running'')) = lit ''run''"
    by (simp add: lemma_eval)
  show ?thesis
    using e h r lemmatize_upper_lower_roundtrip [of "[201, 99, 111, 108, 101]"]
      lemmatize_upper_lower_roundtrip [of "lit ''Running''"]
    by (simp add: list_all_iff)
qed

text \<open>
  C7 as stated speaks of all words. The sharp s, U+00DF, is uppercased to \<open>SS\<close>, which
  lowercases to \<open>ss\<close> and has the lemma \<open>ss\<close>, while its lowercase form is the sharp s
  itself.
\<close>

theorem lemmatize_upper_lower_counterexample:
  "lemmatize_word_custom (py_upper [223]) \<noteq> lemmatize_word_custom (py_lower [223])"
  by (simp add: lemma_eval upper_word_eval)

section \<open>Both functions\<close>

text \<open>
  C8. Both functions are defined on every string: the loop runs once over a list of seven
  suffixes, and lowercasing, the suffix test, the slice and the lookup with a default
  have a result for every string, so the model has no error branch. The stripper's result
  is a string no longer than the lowercased word, the lookup's result is the lowercased
  word or a lemma of the table, and the empty string is a result like any other:
  \<open>ing\<close> is stripped to it, and it is what both functions return for the empty word.
\<close>

theorem custom_functions_total:
  "length (stem_word_custom w) \<le> length (py_lower w)
   \<and> (lemmatize_word_custom w = py_lower w \<or> lemmatize_word_custom w \<in> snd ` set word_forms)
   \<and> stem_word_custom (lit ''ing'') = []
   \<and> stem_word_custom [] = []
   \<and> lemmatize_word_custom [] = []"
proof (intro conjI)
  show "length (stem_word_custom w) \<le> length (py_lower w)"
    unfolding stem_word_custom_def by (rule prefix_length_le) (rule stem_loop_prefix)
  show "lemmatize_word_custom w = py_lower w \<or> lemmatize_word_custom w \<in> snd ` set word_forms"
    unfolding lemmatize_word_custom_def by (rule dict_get_cases)
  show "stem_word_custom (lit ''ing'') = []" by (simp add: stem_eval)
  show "stem_word_custom [] = []" by (simp add: stem_eval)
  show "lemmatize_word_custom [] = []" by (simp add: lemma_eval)
qed

end
